theory Spec2Isabelle
  imports Main
begin

section \<open>JavaScript values\<close>

text \<open>
  The utilities of \<^verbatim>\<open>client/blocks/stripe-utils/utils.js\<close> work on untyped
  JavaScript values. A value is a primitive, an array, a plain object (the sequence of
  its property definitions, a later definition of a name replacing an earlier one) or a
  builtin object of the runtime, known by its name. Numbers are the integers (amounts
  in minor units); NaN and fractions are not represented.
\<close>

datatype jsval =
    JUndefined
  | JNull
  | JBool bool
  | JNum int
  | JStr string
  | JArray "jsval list"
  | JObject "(string \<times> jsval) list"
  | JBuiltin string

text \<open>An exception: \<^verbatim>\<open>throw new Error(msg)\<close>, or the runtime's TypeError.\<close>

datatype error = Error string | TypeError string

text \<open>ToBoolean: what \<^verbatim>\<open>if (v)\<close>, \<^verbatim>\<open>!v\<close>, \<^verbatim>\<open>v || w\<close> and \<^verbatim>\<open>v ? a : b\<close> test.\<close>

fun truthy :: "jsval \<Rightarrow> bool" where
  "truthy JUndefined = False"
| "truthy JNull = False"
| "truthy (JBool b) = b"
| "truthy (JNum n) = (n \<noteq> 0)"
| "truthy (JStr s) = (s \<noteq> [])"
| "truthy (JArray xs) = True"
| "truthy (JObject ps) = True"
| "truthy (JBuiltin n) = True"

text \<open>\<^verbatim>\<open>a || b\<close>, for operands whose evaluation has no effect.\<close>

definition js_or :: "jsval \<Rightarrow> jsval \<Rightarrow> jsval" where
  "js_or a b = (if truthy a then a else b)"

text \<open>
  \<^verbatim>\<open>a === b\<close> where \<open>b\<close> is a primitive (a case label, an element of an array
  of strings): \<open>a\<close> is strictly equal to it exactly when it is the same primitive.
  No conversion takes place, so a string is never equal to a boolean.
\<close>

definition strict_eq :: "jsval \<Rightarrow> jsval \<Rightarrow> bool" where
  "strict_eq a b = (a = b)"

text \<open>\<^verbatim>\<open>xs.includes(v)\<close> on an array of strings.\<close>

definition Array_includes :: "jsval list \<Rightarrow> jsval \<Rightarrow> bool" where
  "Array_includes xs v = (v \<in> set xs)"

text \<open>The own property of a plain object: the last definition of the name.\<close>

definition own_prop :: "(string \<times> jsval) list \<Rightarrow> string \<Rightarrow> jsval option" where
  "own_prop ps k = map_of (rev ps) k"

text \<open>
  The names every plain object inherits from \<^verbatim>\<open>Object.prototype\<close>; reading one
  of them from an object that does not define it gives the builtin.
\<close>

definition Object_prototype_keys :: "string list" where
  "Object_prototype_keys =
     [''constructor'', ''__defineGetter__'', ''__defineSetter__'', ''hasOwnProperty'',
      ''__lookupGetter__'', ''__lookupSetter__'', ''isPrototypeOf'',
      ''propertyIsEnumerable'', ''toString'', ''valueOf'', ''__proto__'',
      ''toLocaleString'']"

text \<open>\<^verbatim>\<open>obj[k]\<close> on a plain object: own property, else inherited, else undefined.\<close>

definition obj_get :: "(string \<times> jsval) list \<Rightarrow> string \<Rightarrow> jsval" where
  "obj_get ps k =
     (case own_prop ps k of
        Some v \<Rightarrow> v
      | None \<Rightarrow>
          if k \<in> set Object_prototype_keys then JBuiltin (''Object.prototype.'' @ k)
          else JUndefined)"

text \<open>
  \<^verbatim>\<open>v.k\<close> for the fixed property names the utilities read (\<open>publicKey\<close>,
  \<open>stripeTotalLabel\<close>, \<open>value\<close>, \<open>applePay\<close>, \<open>postcode\<close>, ...): a TypeError on
  \<open>null\<close> and \<open>undefined\<close>; on a primitive, an array or a builtin the result is
  \<open>undefined\<close>, since no builtin prototype defines one of these names.
\<close>

fun js_get :: "jsval \<Rightarrow> string \<Rightarrow> error + jsval" where
  "js_get JUndefined k = Inl (TypeError (''Cannot read properties of undefined (reading '' @ k @ '')''))"
| "js_get JNull k = Inl (TypeError (''Cannot read properties of null (reading '' @ k @ '')''))"
| "js_get (JObject ps) k = Inr (obj_get ps k)"
| "js_get v k = Inr JUndefined"

section \<open>The platform's settings and translations\<close>

text \<open>
  \<^verbatim>\<open>getSetting(name, fallback)\<close> of \<^verbatim>\<open>@woocommerce/settings\<close> reads the
  settings the server printed into the page: the stored value, or the fallback when
  the page holds none under that name. The settings are a parameter of the model.
\<close>

type_synonym settings = "string \<Rightarrow> jsval option"

definition getSetting :: "settings \<Rightarrow> string \<Rightarrow> jsval \<Rightarrow> jsval" where
  "getSetting st name fallback = (case st name of None \<Rightarrow> fallback | Some v \<Rightarrow> v)"

text \<open>
  \<^verbatim>\<open>__(text, domain)\<close> of \<^verbatim>\<open>@wordpress/i18n\<close>: the translation of a text
  in a text domain, a string. The translation table is a parameter of the model.
\<close>

type_synonym i18n = "string \<Rightarrow> string \<Rightarrow> string"

definition untranslated :: i18n where
  "untranslated text domain = text"

section \<open>Reading the configuration\<close>

definition getStripeServerData :: "settings \<Rightarrow> error + jsval" where
  "getStripeServerData st =
     (let stripeServerData = getSetting st ''stripe_data'' JNull in
      if \<not> truthy stripeServerData
      then Inl (Error ''Stripe initialization data is not available'')
      else Inr stripeServerData)"

definition getApiKey :: "settings \<Rightarrow> error + jsval" where
  "getApiKey st =
     (case getStripeServerData st of
        Inl e \<Rightarrow> Inl e
      | Inr d \<Rightarrow>
          (case js_get d ''publicKey'' of
             Inl e \<Rightarrow> Inl e
           | Inr apiKey \<Rightarrow>
               if \<not> truthy apiKey
               then Inl (Error ''There is no api key available for stripe. Make sure it is available on the wc.stripe_data.stripe.key property.'')
               else Inr apiKey))"

section \<open>Payment items\<close>

definition getTotalPaymentItem :: "i18n \<Rightarrow> settings \<Rightarrow> jsval \<Rightarrow> error + jsval" where
  "getTotalPaymentItem tr st tot =
     (case getStripeServerData st of
        Inl e \<Rightarrow> Inl e
      | Inr d \<Rightarrow>
          (case js_get d ''stripeTotalLabel'' of
             Inl e \<Rightarrow> Inl e
           | Inr l \<Rightarrow>
               (case js_get tot ''value'' of
                  Inl e \<Rightarrow> Inl e
                | Inr v \<Rightarrow>
                    Inr (JObject
                      [(''label'', js_or l (JStr (tr ''Total'' ''woocommerce-gateway-stripe''))),
                       (''amount'', v)]))))"

text \<open>
  Modelled from the spec: \<^verbatim>\<open>normalizeLineItems\<close> of the module
  \<^verbatim>\<open>./normalize\<close>, which is not among the sources. The spec (4.1, 8): the
  ordered sequence of raw line-item records is mapped 1:1, order-preserving, into
  PaymentItem records, with no filtering and no deduplication, each \<open>amount\<close> the
  source item's \<open>value\<close>; the one-item sequence with label Shipping and
  value 500 becomes the one-item sequence with label Shipping and amount 500.
\<close>

definition record_field :: "jsval \<Rightarrow> string \<Rightarrow> jsval" where
  "record_field item k = (case js_get item k of Inl e \<Rightarrow> JUndefined | Inr v \<Rightarrow> v)"

definition normalizeLineItem :: "jsval \<Rightarrow> jsval" where
  "normalizeLineItem item =
     JObject
       [(''label'', record_field item ''label''),
        (''amount'', record_field item ''value'')]"

definition normalizeLineItems :: "jsval list \<Rightarrow> jsval list" where
  "normalizeLineItems cartTotalItems = map normalizeLineItem cartTotalItems"

section \<open>The vendor's payment request handle\<close>

text \<open>
  The handle that \<^verbatim>\<open>stripe.paymentRequest(options)\<close> returns is the vendor's. The
  model keeps what the utilities can tell of it: the options it was created with, as
  later updates changed them, and the arguments of every \<^verbatim>\<open>update\<close> call, in
  order. \<^verbatim>\<open>update(partial)\<close> redefines the options that \<open>partial\<close> names and
  leaves the others.
\<close>

record StripePaymentRequest =
  options :: "(string \<times> jsval) list"
  updates :: "(string \<times> jsval) list list"

definition stripe_paymentRequest :: "(string \<times> jsval) list \<Rightarrow> StripePaymentRequest" where
  "stripe_paymentRequest opts = \<lparr>options = opts, updates = []\<rparr>"

definition paymentRequest_update ::
  "StripePaymentRequest \<Rightarrow> (string \<times> jsval) list \<Rightarrow> StripePaymentRequest" where
  "paymentRequest_update pr partial =
     \<lparr>options = options pr @ partial, updates = updates pr @ [partial]\<rparr>"

section \<open>Request Builder\<close>

text \<open>
  \<^verbatim>\<open>getPaymentRequest({ stripe, total, currencyCode, countryCode,
  shippingRequired, cartTotalItems })\<close>: the arguments of the model are the fields of
  the configuration object after the translations and the settings, with
  \<open>cartTotalItems\<close> an array; the vendor's \<^verbatim>\<open>stripe.paymentRequest\<close> is
  \<open>stripe_paymentRequest\<close>. The fields of the options are evaluated in the order of
  the source, so the builder throws what \<open>getTotalPaymentItem\<close> throws.
\<close>

definition getPaymentRequest ::
  "i18n \<Rightarrow> settings \<Rightarrow> jsval \<Rightarrow> jsval \<Rightarrow> jsval \<Rightarrow> jsval \<Rightarrow> jsval list
     \<Rightarrow> error + StripePaymentRequest" where
  "getPaymentRequest tr st tot currencyCode countryCode shippingRequired cartTotalItems =
     (case getTotalPaymentItem tr st tot of
        Inl e \<Rightarrow> Inl e
      | Inr t \<Rightarrow>
          Inr (stripe_paymentRequest
            [(''total'', t),
             (''currency'', currencyCode),
             (''country'', js_or countryCode (JStr ''US'')),
             (''requestPayerName'', JBool True),
             (''requestPayerEmail'', JBool True),
             (''requestPayerPhone'', JBool True),
             (''requestShipping'', shippingRequired),
             (''displayItems'', JArray (normalizeLineItems cartTotalItems))]))"

text \<open>
  \<^verbatim>\<open>createPaymentRequestUsingCart(stripe, cart)\<close>; the first argument of the model
  is the global \<^verbatim>\<open>wc_stripe_payment_request_params.checkout.needs_payer_phone\<close>.
  Puerto Rico is mapped to the United States here, after the options are built.
\<close>

definition createPaymentRequestUsingCart :: "jsval \<Rightarrow> jsval \<Rightarrow> error + StripePaymentRequest" where
  "createPaymentRequestUsingCart needs_payer_phone cart =
     (case js_get cart ''order_data'' of
        Inl e \<Rightarrow> Inl e
      | Inr order_data \<Rightarrow>
     (case js_get order_data ''total'' of
        Inl e \<Rightarrow> Inl e
      | Inr tot \<Rightarrow>
     (case js_get order_data ''currency'' of
        Inl e \<Rightarrow> Inl e
      | Inr currency \<Rightarrow>
     (case js_get order_data ''country_code'' of
        Inl e \<Rightarrow> Inl e
      | Inr country_code \<Rightarrow>
     (case js_get cart ''shipping_required'' of
        Inl e \<Rightarrow> Inl e
      | Inr shipping_required \<Rightarrow>
     (case js_get order_data ''displayItems'' of
        Inl e \<Rightarrow> Inl e
      | Inr displayItems \<Rightarrow>
          (let opts =
             [(''total'', tot),
              (''currency'', currency),
              (''country'', country_code),
              (''requestPayerName'', JBool True),
              (''requestPayerEmail'', JBool True),
              (''requestPayerPhone'', needs_payer_phone),
              (''requestShipping'', (if truthy shipping_required then JBool True else JBool False)),
              (''displayItems'', displayItems)];
               opts' =
                 (if strict_eq (obj_get opts ''country'') (JStr ''PR'')
                  then opts @ [(''country'', JStr ''US'')]
                  else opts)
           in Inr (stripe_paymentRequest opts'))))))))"

section \<open>Request Updater\<close>

definition updatePaymentRequest ::
  "i18n \<Rightarrow> settings \<Rightarrow> StripePaymentRequest \<Rightarrow> jsval \<Rightarrow> jsval \<Rightarrow> jsval list
     \<Rightarrow> error + StripePaymentRequest" where
  "updatePaymentRequest tr st paymentRequest tot currencyCode cartTotalItems =
     (case getTotalPaymentItem tr st tot of
        Inl e \<Rightarrow> Inl e
      | Inr t \<Rightarrow>
          Inr (paymentRequest_update paymentRequest
            [(''total'', t),
             (''currency'', currencyCode),
             (''displayItems'', JArray (normalizeLineItems cartTotalItems))]))"

definition updatePaymentRequestWithCart ::
  "StripePaymentRequest \<Rightarrow> jsval \<Rightarrow> error + StripePaymentRequest" where
  "updatePaymentRequestWithCart paymentRequest cart =
     (case js_get cart ''order_data'' of
        Inl e \<Rightarrow> Inl e
      | Inr order_data \<Rightarrow>
     (case js_get order_data ''total'' of
        Inl e \<Rightarrow> Inl e
      | Inr tot \<Rightarrow>
     (case js_get order_data ''currency'' of
        Inl e \<Rightarrow> Inl e
      | Inr currency \<Rightarrow>
     (case js_get order_data ''displayItems'' of
        Inl e \<Rightarrow> Inl e
      | Inr displayItems \<Rightarrow>
          Inr (paymentRequest_update paymentRequest
            [(''total'', tot),
             (''currency'', currency),
             (''displayItems'', displayItems)])))))"

section \<open>Capability Prober\<close>

text \<open>
  The state of a promise. \<^verbatim>\<open>canDoPaymentRequest\<close> returns a new promise and
  resolves it from the callback it passes to
  \<^verbatim>\<open>paymentRequest.canMakePayment().then\<close>; nothing else settles it.
\<close>

datatype promise = Pending | Resolved jsval | Rejected jsval

text \<open>The callback: what the new promise is resolved with, for a probe result.\<close>

definition canMakePayment_then :: "jsval \<Rightarrow> error + jsval" where
  "canMakePayment_then result =
     (if truthy result then
        (case js_get result ''applePay'' of
           Inl e \<Rightarrow> Inl e
         | Inr applePay \<Rightarrow>
             (let paymentRequestType =
                (if truthy applePay then ''apple_pay'' else ''payment_request_api'')
              in Inr (JObject [(''canPay'', JBool True),
                               (''requestType'', JStr paymentRequestType)])))
      else Inr (JObject [(''canPay'', JBool False)]))"

definition canDoPaymentRequest :: "promise \<Rightarrow> promise" where
  "canDoPaymentRequest canMakePayment =
     (case canMakePayment of
        Resolved result \<Rightarrow>
          (case canMakePayment_then result of
             Inr v \<Rightarrow> Resolved v
           | Inl e \<Rightarrow> Pending)
      | Rejected reason \<Rightarrow> Pending
      | Pending \<Rightarrow> Pending)"

section \<open>Error Classifier\<close>

text \<open>
  The constants of the module \<^verbatim>\<open>./constants\<close>, which is not among the sources:
  \<^verbatim>\<open>errorTypes\<close> and \<^verbatim>\<open>errorCodes\<close> are objects of strings, and parameters
  of the classifier's model.
\<close>

record errorTypes =
  INVALID_EMAIL :: string
  INVALID_REQUEST :: string
  API_CONNECTION :: string
  API_ERROR :: string
  AUTHENTICATION_ERROR :: string
  RATE_LIMIT_ERROR :: string
  CARD_ERROR :: string
  VALIDATION_ERROR :: string

record errorCodes =
  INVALID_NUMBER :: string
  INVALID_EXPIRY_MONTH :: string
  INVALID_EXPIRY_YEAR :: string
  INVALID_CVC :: string
  INCORRECT_NUMBER :: string
  INCOMPLETE_NUMBER :: string
  INCOMPLETE_CVC :: string
  INCOMPLETE_EXPIRY :: string
  EXPIRED_CARD :: string
  INCORRECT_CVC :: string
  INCORRECT_ZIP :: string
  INVALID_EXPIRY_YEAR_PAST :: string
  CARD_DECLINED :: string
  MISSING :: string
  PROCESSING_ERROR :: string

text \<open>
  Modelled from the spec: the values of \<^verbatim>\<open>errorTypes\<close> in \<^verbatim>\<open>./constants\<close>,
  which is not among the sources. The spec (4.4) names the invalid email variant, the
  closed set invalid_request, api_connection, api_error, authentication_error,
  rate_limit_error, and the types card_error and validation_error.
\<close>

definition spec_errorTypes :: errorTypes where
  "spec_errorTypes =
     \<lparr>INVALID_EMAIL = ''invalid_email'',
      INVALID_REQUEST = ''invalid_request'',
      API_CONNECTION = ''api_connection'',
      API_ERROR = ''api_error'',
      AUTHENTICATION_ERROR = ''authentication_error'',
      RATE_LIMIT_ERROR = ''rate_limit_error'',
      CARD_ERROR = ''card_error'',
      VALIDATION_ERROR = ''validation_error''\<rparr>"

text \<open>
  Modelled from the spec: the values of \<^verbatim>\<open>errorCodes\<close> in \<^verbatim>\<open>./constants\<close>,
  which is not among the sources, named after the entries of the code table that the
  spec (4.4) lists.
\<close>

definition spec_errorCodes :: errorCodes where
  "spec_errorCodes =
     \<lparr>INVALID_NUMBER = ''invalid_number'',
      INVALID_EXPIRY_MONTH = ''invalid_expiry_month'',
      INVALID_EXPIRY_YEAR = ''invalid_expiry_year'',
      INVALID_CVC = ''invalid_cvc'',
      INCORRECT_NUMBER = ''incorrect_number'',
      INCOMPLETE_NUMBER = ''incomplete_number'',
      INCOMPLETE_CVC = ''incomplete_cvc'',
      INCOMPLETE_EXPIRY = ''incomplete_expiry'',
      EXPIRED_CARD = ''expired_card'',
      INCORRECT_CVC = ''incorrect_cvc'',
      INCORRECT_ZIP = ''incorrect_zip'',
      INVALID_EXPIRY_YEAR_PAST = ''invalid_expiry_year_past'',
      CARD_DECLINED = ''card_declined'',
      MISSING = ''missing'',
      PROCESSING_ERROR = ''processing_error''\<rparr>"

definition isNonFriendlyError :: "errorTypes \<Rightarrow> jsval \<Rightarrow> bool" where
  "isNonFriendlyError et type =
     Array_includes
       [JStr (INVALID_REQUEST et),
        JStr (API_CONNECTION et),
        JStr (API_ERROR et),
        JStr (AUTHENTICATION_ERROR et),
        JStr (RATE_LIMIT_ERROR et)]
       type"

definition text_domain :: string where
  "text_domain = ''woocommerce-gateway-stripe''"

text \<open>The object literal \<^verbatim>\<open>messages\<close>: its computed keys in the order of the source.\<close>

definition messages :: "i18n \<Rightarrow> errorCodes \<Rightarrow> (string \<times> jsval) list" where
  "messages tr ec =
     [(INVALID_NUMBER ec, JStr (tr ''The card number is not a valid credit card number.'' text_domain)),
      (INVALID_EXPIRY_MONTH ec, JStr (tr ''The card expiration month is invalid.'' text_domain)),
      (INVALID_EXPIRY_YEAR ec, JStr (tr ''The card expiration year is invalid.'' text_domain)),
      (INVALID_CVC ec, JStr (tr ''The card security code is invalid.'' text_domain)),
      (INCORRECT_NUMBER ec, JStr (tr ''The card number is incorrect.'' text_domain)),
      (INCOMPLETE_NUMBER ec, JStr (tr ''The card number is incomplete.'' text_domain)),
      (INCOMPLETE_CVC ec, JStr (tr ''The card security code is incomplete.'' text_domain)),
      (INCOMPLETE_EXPIRY ec, JStr (tr ''The card expiration date is incomplete.'' text_domain)),
      (EXPIRED_CARD ec, JStr (tr ''The card has expired.'' text_domain)),
      (INCORRECT_CVC ec, JStr (tr ''The card security code is incorrect.'' text_domain)),
      (INCORRECT_ZIP ec, JStr (tr ''The card zip code failed validation.'' text_domain)),
      (INVALID_EXPIRY_YEAR_PAST ec, JStr (tr ''The card expiration year is in the past'' text_domain)),
      (CARD_DECLINED ec, JStr (tr ''The card was declined.'' text_domain)),
      (MISSING ec, JStr (tr ''There is no card on a customer that is being charged.'' text_domain)),
      (PROCESSING_ERROR ec, JStr (tr ''An error occurred while processing the card.'' text_domain))]"

definition getErrorMessageForCode :: "i18n \<Rightarrow> errorCodes \<Rightarrow> string \<Rightarrow> jsval" where
  "getErrorMessageForCode tr ec code = js_or (obj_get (messages tr ec) code) JNull"

text \<open>
  \<^verbatim>\<open>getErrorMessageForTypeAndCode(type, code = '')\<close>. The \<open>type\<close> is any value;
  the \<open>code\<close> is a string, or \<open>None\<close> when it is omitted or undefined. The
  \<^verbatim>\<open>switch\<close> compares \<open>type\<close> with each case expression by \<^verbatim>\<open>===\<close>, in
  order; the second case expression is the boolean \<^verbatim>\<open>isNonFriendlyError(type)\<close>.
\<close>

definition email_message :: "i18n \<Rightarrow> jsval" where
  "email_message tr = JStr (tr ''Invalid email address, please correct and try again.'' text_domain)"

definition generic_message :: "i18n \<Rightarrow> jsval" where
  "generic_message tr =
     JStr (tr ''Unable to process this payment, please try again or use alternative method.'' text_domain)"

definition getErrorMessageForTypeAndCode ::
  "i18n \<Rightarrow> errorTypes \<Rightarrow> errorCodes \<Rightarrow> jsval \<Rightarrow> string option \<Rightarrow> jsval" where
  "getErrorMessageForTypeAndCode tr et ec type code_arg =
     (let code = (case code_arg of None \<Rightarrow> [] | Some c \<Rightarrow> c) in
      if strict_eq type (JStr (INVALID_EMAIL et)) then email_message tr
      else if strict_eq type (JBool (isNonFriendlyError et type)) then generic_message tr
      else if strict_eq type (JStr (CARD_ERROR et)) then getErrorMessageForCode tr ec code
      else if strict_eq type (JStr (VALIDATION_ERROR et)) then JStr []
      else JNull)"

section \<open>Address Normalizer\<close>

text \<open>
  \<^verbatim>\<open>s.replace(pattern, replacement)\<close> with a string pattern: the first
  occurrence of the pattern is replaced, the rest of the string is kept (for a
  replacement without dollar patterns).
\<close>

fun String_replace :: "string \<Rightarrow> string \<Rightarrow> string \<Rightarrow> string" where
  "String_replace pat rep [] = (if pat = [] then rep else [])"
| "String_replace pat rep (c # cs) =
     (if take (length pat) (c # cs) = pat then rep @ drop (length pat) (c # cs)
      else c # String_replace pat rep cs)"

text \<open>
  \<^verbatim>\<open>s.toUpperCase()\<close> on the letters a to z (codes 97 to 122): the capital
  letter is 32 below, the same character with the bit of weight 32 cleared. Every
  other character of the model's byte strings is kept as it is: the model is exact on
  ASCII strings. The runtime also maps the letters outside ASCII, which byte strings
  do not represent; no property below is stated for them.
\<close>

definition toUpperCase_char :: "char \<Rightarrow> char" where
  "toUpperCase_char c =
     (let n = (of_char c :: nat) in
      if 97 \<le> n \<and> n \<le> 122
      then (case c of Char b0 b1 b2 b3 b4 b5 b6 b7 \<Rightarrow> Char b0 b1 b2 b3 b4 False b6 b7)
      else c)"

definition toUpperCase :: "string \<Rightarrow> string" where
  "toUpperCase s = map toUpperCase_char s"

text \<open>
  \<^verbatim>\<open>pluckAddress({ country, state, city, postcode })\<close>. Destructuring
  \<open>null\<close> or \<open>undefined\<close> is a TypeError, and so is calling \<^verbatim>\<open>replace\<close> on a
  postcode that is not a string (an object that brings a \<open>replace\<close> method of its
  own is outside the model).
\<close>

definition pluckAddress :: "jsval \<Rightarrow> error + jsval" where
  "pluckAddress address =
     (case js_get address ''country'' of
        Inl e \<Rightarrow> Inl e
      | Inr country \<Rightarrow>
     (case js_get address ''state'' of
        Inl e \<Rightarrow> Inl e
      | Inr state \<Rightarrow>
     (case js_get address ''city'' of
        Inl e \<Rightarrow> Inl e
      | Inr city \<Rightarrow>
     (case js_get address ''postcode'' of
        Inl e \<Rightarrow> Inl e
      | Inr postcode \<Rightarrow>
          (case postcode of
             JStr s \<Rightarrow>
               Inr (JObject
                 [(''country'', country),
                  (''state'', state),
                  (''city'', city),
                  (''postcode'', JStr (toUpperCase (String_replace '' '' [] s)))])
           | _ \<Rightarrow>
               (case js_get postcode ''replace'' of
                  Inl e \<Rightarrow> Inl e
                | Inr f \<Rightarrow> Inl (TypeError ''postcode.replace is not a function'')))))))"

section \<open>Example inputs\<close>

text \<open>
  A page whose settings hold the Stripe data with a public key and no custom total
  label, a page with no settings, and the cart of the spec's end-to-end example: a
  total of 1000, and one line item Shipping of 500.
\<close>

definition example_settings :: settings where
  "example_settings =
     (\<lambda>name. if name = ''stripe_data''
              then Some (JObject [(''publicKey'', JStr ''pk_test_example'')])
              else None)"

definition empty_settings :: settings where
  "empty_settings = (\<lambda>name. None)"

definition example_total :: jsval where
  "example_total = JObject [(''label'', JStr ''Total''), (''value'', JNum 1000)]"

definition example_items :: "jsval list" where
  "example_items = [JObject [(''label'', JStr ''Shipping''), (''value'', JNum 500)]]"

definition example_address :: jsval where
  "example_address =
     JObject
       [(''first_name'', JStr ''Ada''),
        (''country'', JStr ''GB''),
        (''state'', JStr []),
        (''city'', JStr ''London''),
        (''postcode'', JStr '' sw1a 1aa '')]"

definition example_cart :: jsval where
  "example_cart =
     JObject
       [(''shipping_required'', JBool True),
        (''order_data'',
         JObject
           [(''total'', JObject [(''label'', JStr ''Total''), (''amount'', JNum 1000)]),
            (''currency'', JStr ''usd''),
            (''country_code'', JStr ''PR''),
            (''displayItems'',
             JArray [JObject [(''label'', JStr ''Shipping''), (''amount'', JNum 500)]])])]"

text \<open>
  The options that the Request Builder passes to the vendor for this cart, with the
  currency usd, the country code PR and shipping required, and the handle created
  from them.
\<close>

definition example_options :: "(string \<times> jsval) list" where
  "example_options =
     [(''total'', JObject [(''label'', JStr ''Total''), (''amount'', JNum 1000)]),
      (''currency'', JStr ''usd''),
      (''country'', JStr ''PR''),
      (''requestPayerName'', JBool True),
      (''requestPayerEmail'', JBool True),
      (''requestPayerPhone'', JBool True),
      (''requestShipping'', JBool True),
      (''displayItems'',
       JArray [JObject [(''label'', JStr ''Shipping''), (''amount'', JNum 500)]])]"

definition example_handle :: StripePaymentRequest where
  "example_handle = \<lparr>options = example_options, updates = []\<rparr>"

section \<open>Properties of the value model\<close>

lemma own_prop_append_other:
  "k \<notin> fst ` set qs \<Longrightarrow> own_prop (ps @ qs) k = own_prop ps k"
  by (simp add: own_prop_def map_add_def map_of_eq_None_iff[THEN iffD2] split: option.splits)

lemma obj_get_append_other:
  "k \<notin> fst ` set qs \<Longrightarrow> obj_get (ps @ qs) k = obj_get ps k"
  by (simp add: obj_get_def own_prop_append_other)

lemma js_get_truthy: "truthy v \<Longrightarrow> \<exists>x. js_get v k = Inr x"
  by (cases v) auto

section \<open>Reading the configuration: properties\<close>

lemma getStripeServerData_cases:
  "getStripeServerData st =
     (if truthy (getSetting st ''stripe_data'' JNull)
      then Inr (getSetting st ''stripe_data'' JNull)
      else Inl (Error ''Stripe initialization data is not available''))"
  by (simp add: getStripeServerData_def Let_def)

text \<open>
  C7. Reading the configuration throws exactly when it is missing:
  \<open>getStripeServerData\<close> throws if and only if the settings blob is falsy, and
  otherwise returns the blob itself; \<open>getApiKey\<close> throws if and only if the blob is
  falsy or its \<open>publicKey\<close> is falsy, and otherwise returns that key itself. Nothing
  is put in the place of a missing value.
\<close>

theorem configuration_fails_exactly_when_missing:
  "((\<exists>e. getStripeServerData st = Inl e) = (\<not> truthy (getSetting st ''stripe_data'' JNull))) \<and>
   (truthy (getSetting st ''stripe_data'' JNull) \<longrightarrow>
      getStripeServerData st = Inr (getSetting st ''stripe_data'' JNull)) \<and>
   ((\<exists>e. getApiKey st = Inl e) =
      (\<not> truthy (getSetting st ''stripe_data'' JNull) \<or>
       (\<exists>k. js_get (getSetting st ''stripe_data'' JNull) ''publicKey'' = Inr k \<and> \<not> truthy k))) \<and>
   (truthy (getSetting st ''stripe_data'' JNull) \<and>
    js_get (getSetting st ''stripe_data'' JNull) ''publicKey'' = Inr k \<and> truthy k \<longrightarrow>
      getApiKey st = Inr k)"
proof -
  let ?blob = "getSetting st ''stripe_data'' JNull"
  show ?thesis
  proof (cases "truthy ?blob")
    case False
    then show ?thesis
      by (simp add: getApiKey_def getStripeServerData_cases)
  next
    case True
    then obtain x where x: "js_get ?blob ''publicKey'' = Inr x"
      using js_get_truthy by blast
    with True show ?thesis
      by (simp add: getApiKey_def getStripeServerData_cases)
  qed
qed

theorem configuration_fails_exactly_when_missing_witness:
  "getStripeServerData example_settings = Inr (JObject [(''publicKey'', JStr ''pk_test_example'')]) \<and>
   getApiKey example_settings = Inr (JStr ''pk_test_example'') \<and>
   (\<exists>e. getStripeServerData empty_settings = Inl e) \<and>
   (\<exists>e. getApiKey empty_settings = Inl e)"
proof -
  have blob: "getSetting example_settings ''stripe_data'' JNull =
      JObject [(''publicKey'', JStr ''pk_test_example'')]"
    by (simp add: getSetting_def example_settings_def)
  have key: "js_get (JObject [(''publicKey'', JStr ''pk_test_example'')]) ''publicKey'' =
      Inr (JStr ''pk_test_example'')"
    by (simp add: obj_get_def own_prop_def)
  have none: "\<not> truthy (getSetting empty_settings ''stripe_data'' JNull)"
    by (simp add: getSetting_def empty_settings_def)
  from configuration_fails_exactly_when_missing [of example_settings "JStr ''pk_test_example''"]
       configuration_fails_exactly_when_missing [of empty_settings JNull]
       blob key none
  show ?thesis by simp
qed

section \<open>Request Builder: properties\<close>

lemma getPaymentRequest_options:
  "getPaymentRequest tr st tot currencyCode countryCode shippingRequired cartTotalItems = Inr pr \<Longrightarrow>
     \<exists>t. getTotalPaymentItem tr st tot = Inr t \<and>
         options pr =
           [(''total'', t),
            (''currency'', currencyCode),
            (''country'', js_or countryCode (JStr ''US'')),
            (''requestPayerName'', JBool True),
            (''requestPayerEmail'', JBool True),
            (''requestPayerPhone'', JBool True),
            (''requestShipping'', shippingRequired),
            (''displayItems'', JArray (normalizeLineItems cartTotalItems))] \<and>
         updates pr = []"
  by (auto simp: getPaymentRequest_def stripe_paymentRequest_def split: sum.splits)

text \<open>
  The builder throws only what \<open>getTotalPaymentItem\<close> throws: with the Stripe data
  on the page and a total that is an object, it returns a handle.
\<close>

lemma getPaymentRequest_succeeds:
  assumes b: "truthy (getSetting st ''stripe_data'' JNull)"
    and t: "tot \<noteq> JNull" "tot \<noteq> JUndefined"
  shows "\<exists>pr. getPaymentRequest tr st tot currencyCode countryCode shippingRequired cartTotalItems = Inr pr"
proof -
  from b obtain l where l: "js_get (getSetting st ''stripe_data'' JNull) ''stripeTotalLabel'' = Inr l"
    using js_get_truthy by blast
  from t obtain v where v: "js_get tot ''value'' = Inr v"
    by (cases tot) auto
  show ?thesis
    by (simp add: getPaymentRequest_def getTotalPaymentItem_def getStripeServerData_cases b l v)
qed

lemma example_request:
  "getPaymentRequest untranslated example_settings example_total (JStr ''usd'') (JStr ''PR'')
     (JBool True) example_items = Inr example_handle"
  by (simp add: getPaymentRequest_def getTotalPaymentItem_def getStripeServerData_cases
      getSetting_def example_settings_def example_total_def example_items_def
      obj_get_def own_prop_def Object_prototype_keys_def js_or_def untranslated_def
      stripe_paymentRequest_def normalizeLineItems_def normalizeLineItem_def record_field_def
      example_handle_def example_options_def)

lemma getTotalPaymentItem_Inr:
  "getTotalPaymentItem tr st tot = Inr t \<Longrightarrow>
     \<exists>l v. t = JObject [(''label'', l), (''amount'', v)] \<and> js_get tot ''value'' = Inr v"
  by (auto simp: getTotalPaymentItem_def split: sum.splits)

lemma getPaymentRequest_returns_iff:
  "(\<exists>pr. getPaymentRequest tr st tot currencyCode countryCode shippingRequired cartTotalItems = Inr pr) =
   (truthy (getSetting st ''stripe_data'' JNull) \<and> tot \<noteq> JNull \<and> tot \<noteq> JUndefined)"
proof
  assume "\<exists>pr. getPaymentRequest tr st tot currencyCode countryCode shippingRequired cartTotalItems = Inr pr"
  then obtain t where t: "getTotalPaymentItem tr st tot = Inr t"
    by (auto dest!: getPaymentRequest_options)
  then have "truthy (getSetting st ''stripe_data'' JNull)"
    by (auto simp: getTotalPaymentItem_def getStripeServerData_cases split: if_splits)
  moreover from t obtain v where "js_get tot ''value'' = Inr v"
    by (auto dest!: getTotalPaymentItem_Inr)
  then have "tot \<noteq> JNull \<and> tot \<noteq> JUndefined"
    by auto
  ultimately show "truthy (getSetting st ''stripe_data'' JNull) \<and> tot \<noteq> JNull \<and> tot \<noteq> JUndefined"
    by simp
next
  assume "truthy (getSetting st ''stripe_data'' JNull) \<and> tot \<noteq> JNull \<and> tot \<noteq> JUndefined"
  then show "\<exists>pr. getPaymentRequest tr st tot currencyCode countryCode shippingRequired cartTotalItems = Inr pr"
    by (simp add: getPaymentRequest_succeeds)
qed

lemma example_preconditions:
  "truthy (getSetting example_settings ''stripe_data'' JNull) \<and>
   example_total \<noteq> JNull \<and> example_total \<noteq> JUndefined"
  by (simp add: getSetting_def example_settings_def example_total_def)

text \<open>
  C8. The builder returns a request exactly when the Stripe data is on the page and
  the total is neither \<open>null\<close> nor \<open>undefined\<close>. For every ordered sequence of
  cart line items, the \<open>displayItems\<close> of the request it returns is a sequence of the
  same length, in the same order: the item at each position carries the amount (the
  \<open>value\<close>) and the label of the cart item at that position, so that no item is
  filtered out and none merged with another.
\<close>

theorem displayItems_one_to_one:
  "((\<exists>pr. getPaymentRequest tr st tot currencyCode countryCode shippingRequired cartTotalItems = Inr pr) =
      (truthy (getSetting st ''stripe_data'' JNull) \<and> tot \<noteq> JNull \<and> tot \<noteq> JUndefined)) \<and>
   (getPaymentRequest tr st tot currencyCode countryCode shippingRequired cartTotalItems = Inr pr \<longrightarrow>
     (\<exists>displayItems.
        obj_get (options pr) ''displayItems'' = JArray displayItems \<and>
        length displayItems = length cartTotalItems \<and>
        (\<forall>i < length cartTotalItems.
           js_get (displayItems ! i) ''amount'' = Inr (record_field (cartTotalItems ! i) ''value'') \<and>
           js_get (displayItems ! i) ''label'' = Inr (record_field (cartTotalItems ! i) ''label''))))"
proof (intro conjI impI)
  show "(\<exists>pr. getPaymentRequest tr st tot currencyCode countryCode shippingRequired cartTotalItems = Inr pr) =
      (truthy (getSetting st ''stripe_data'' JNull) \<and> tot \<noteq> JNull \<and> tot \<noteq> JUndefined)"
    by (rule getPaymentRequest_returns_iff)
next
  assume "getPaymentRequest tr st tot currencyCode countryCode shippingRequired cartTotalItems = Inr pr"
  then have "obj_get (options pr) ''displayItems'' = JArray (normalizeLineItems cartTotalItems)"
    by (auto dest!: getPaymentRequest_options simp: obj_get_def own_prop_def)
  moreover have "length (normalizeLineItems cartTotalItems) = length cartTotalItems"
    by (simp add: normalizeLineItems_def)
  moreover have "\<forall>i < length cartTotalItems.
      js_get (normalizeLineItems cartTotalItems ! i) ''amount'' =
        Inr (record_field (cartTotalItems ! i) ''value'') \<and>
      js_get (normalizeLineItems cartTotalItems ! i) ''label'' =
        Inr (record_field (cartTotalItems ! i) ''label'')"
    by (simp add: normalizeLineItems_def normalizeLineItem_def obj_get_def own_prop_def)
  ultimately show "\<exists>displayItems.
        obj_get (options pr) ''displayItems'' = JArray displayItems \<and>
        length displayItems = length cartTotalItems \<and>
        (\<forall>i < length cartTotalItems.
           js_get (displayItems ! i) ''amount'' = Inr (record_field (cartTotalItems ! i) ''value'') \<and>
           js_get (displayItems ! i) ''label'' = Inr (record_field (cartTotalItems ! i) ''label''))"
    by blast
qed

theorem displayItems_one_to_one_witness:
  "\<exists>pr displayItems.
      getPaymentRequest untranslated example_settings example_total (JStr ''usd'') (JStr ''PR'')
        (JBool True) example_items = Inr pr \<and>
      obj_get (options pr) ''displayItems'' = JArray displayItems \<and>
      length displayItems = 1 \<and>
      js_get (displayItems ! 0) ''amount'' = Inr (JNum 500) \<and>
      js_get (displayItems ! 0) ''label'' = Inr (JStr ''Shipping'')"
proof -
  note inst = displayItems_one_to_one
    [of untranslated example_settings example_total "JStr ''usd''" "JStr ''PR''" "JBool True"
        example_items]
  from inst example_preconditions obtain pr where
    pr: "getPaymentRequest untranslated example_settings example_total (JStr ''usd'') (JStr ''PR'')
        (JBool True) example_items = Inr pr"
    by blast
  from displayItems_one_to_one
    [of untranslated example_settings example_total "JStr ''usd''" "JStr ''PR''" "JBool True"
        example_items pr] pr
  obtain ds where
    ds: "obj_get (options pr) ''displayItems'' = JArray ds"
    and len: "length ds = length example_items"
    and each: "\<forall>i < length example_items.
           js_get (ds ! i) ''amount'' = Inr (record_field (example_items ! i) ''value'') \<and>
           js_get (ds ! i) ''label'' = Inr (record_field (example_items ! i) ''label'')"
    by blast
  have n: "length example_items = 1" by (simp add: example_items_def)
  have v: "record_field (example_items ! 0) ''value'' = JNum 500"
    by (simp add: example_items_def record_field_def obj_get_def own_prop_def)
  have l: "record_field (example_items ! 0) ''label'' = JStr ''Shipping''"
    by (simp add: example_items_def record_field_def obj_get_def own_prop_def)
  from each n v l have "js_get (ds ! 0) ''amount'' = Inr (JNum 500) \<and>
      js_get (ds ! 0) ''label'' = Inr (JStr ''Shipping'')"
    by simp
  with pr ds len n show ?thesis by auto
qed

text \<open>
  C10. The builder returns a request exactly when the Stripe data is on the page and
  the total is neither \<open>null\<close> nor \<open>undefined\<close>. Whatever the input, the request it
  returns asks for the payer's name, email and phone: \<open>requestPayerName\<close>,
  \<open>requestPayerEmail\<close> and \<open>requestPayerPhone\<close> are \<open>true\<close>, and no argument of the
  builder reaches them.
\<close>

theorem payer_requests_always_true:
  "((\<exists>pr. getPaymentRequest tr st tot currencyCode countryCode shippingRequired cartTotalItems = Inr pr) =
      (truthy (getSetting st ''stripe_data'' JNull) \<and> tot \<noteq> JNull \<and> tot \<noteq> JUndefined)) \<and>
   (getPaymentRequest tr st tot currencyCode countryCode shippingRequired cartTotalItems = Inr pr \<longrightarrow>
     obj_get (options pr) ''requestPayerName'' = JBool True \<and>
     obj_get (options pr) ''requestPayerEmail'' = JBool True \<and>
     obj_get (options pr) ''requestPayerPhone'' = JBool True)"
proof (intro conjI impI)
  show "(\<exists>pr. getPaymentRequest tr st tot currencyCode countryCode shippingRequired cartTotalItems = Inr pr) =
      (truthy (getSetting st ''stripe_data'' JNull) \<and> tot \<noteq> JNull \<and> tot \<noteq> JUndefined)"
    by (rule getPaymentRequest_returns_iff)
next
  assume r: "getPaymentRequest tr st tot currencyCode countryCode shippingRequired cartTotalItems = Inr pr"
  from r show "obj_get (options pr) ''requestPayerName'' = JBool True"
    by (auto dest!: getPaymentRequest_options simp: obj_get_def own_prop_def)
  from r show "obj_get (options pr) ''requestPayerEmail'' = JBool True"
    by (auto dest!: getPaymentRequest_options simp: obj_get_def own_prop_def)
  from r show "obj_get (options pr) ''requestPayerPhone'' = JBool True"
    by (auto dest!: getPaymentRequest_options simp: obj_get_def own_prop_def)
qed

theorem payer_requests_always_true_witness:
  "\<exists>pr. getPaymentRequest untranslated example_settings example_total (JStr ''usd'') (JStr ''PR'')
          (JBool False) example_items = Inr pr \<and>
        obj_get (options pr) ''requestPayerName'' = JBool True \<and>
        obj_get (options pr) ''requestPayerEmail'' = JBool True \<and>
        obj_get (options pr) ''requestPayerPhone'' = JBool True"
proof -
  from payer_requests_always_true
    [of untranslated example_settings example_total "JStr ''usd''" "JStr ''PR''" "JBool False"
        example_items]
    example_preconditions
  obtain pr where
    pr: "getPaymentRequest untranslated example_settings example_total (JStr ''usd'') (JStr ''PR'')
        (JBool False) example_items = Inr pr"
    by blast
  with payer_requests_always_true
    [of untranslated example_settings example_total "JStr ''usd''" "JStr ''PR''" "JBool False"
        example_items pr]
  show ?thesis by blast
qed

section \<open>Request Updater: properties\<close>

lemma paymentRequest_update_frame:
  "k \<notin> fst ` set partial \<Longrightarrow>
     obj_get (options (paymentRequest_update pr partial)) k = obj_get (options pr) k"
  by (simp add: paymentRequest_update_def obj_get_append_other)

lemma example_update:
  "updatePaymentRequest untranslated example_settings example_handle
     (JObject [(''value'', JNum 1500)]) (JStr ''eur'') [] =
   Inr (paymentRequest_update example_handle
     [(''total'', JObject [(''label'', JStr ''Total''), (''amount'', JNum 1500)]),
      (''currency'', JStr ''eur''),
      (''displayItems'', JArray [])])"
  by (simp add: updatePaymentRequest_def getTotalPaymentItem_def getStripeServerData_cases
      getSetting_def example_settings_def obj_get_def own_prop_def Object_prototype_keys_def
      js_or_def untranslated_def normalizeLineItems_def)

lemma example_update_with_cart:
  "updatePaymentRequestWithCart example_handle example_cart =
   Inr (paymentRequest_update example_handle
     [(''total'', JObject [(''label'', JStr ''Total''), (''amount'', JNum 1000)]),
      (''currency'', JStr ''usd''),
      (''displayItems'', JArray [JObject [(''label'', JStr ''Shipping''), (''amount'', JNum 500)]])])"
  by (simp add: updatePaymentRequestWithCart_def example_cart_def obj_get_def own_prop_def)

text \<open>
  C9. Both updaters call the handle's \<open>update\<close> once, with an object of exactly the
  fields \<open>total\<close>, \<open>currency\<close> and \<open>displayItems\<close>; every other option of the
  handle, \<open>country\<close>, \<open>requestPayerName\<close>, \<open>requestPayerEmail\<close>,
  \<open>requestPayerPhone\<close> and \<open>requestShipping\<close> among them, reads after the update
  as it did before.
\<close>

theorem update_passes_three_fields_only:
  "(updatePaymentRequest tr st pr tot currencyCode cartTotalItems = Inr pr' \<longrightarrow>
      (\<exists>arg. updates pr' = updates pr @ [arg] \<and>
             map fst arg = [''total'', ''currency'', ''displayItems'']) \<and>
      (\<forall>k. k \<notin> set [''total'', ''currency'', ''displayItems''] \<longrightarrow>
             obj_get (options pr') k = obj_get (options pr) k)) \<and>
   (updatePaymentRequestWithCart pr cart = Inr pr'' \<longrightarrow>
      (\<exists>arg. updates pr'' = updates pr @ [arg] \<and>
             map fst arg = [''total'', ''currency'', ''displayItems'']) \<and>
      (\<forall>k. k \<notin> set [''total'', ''currency'', ''displayItems''] \<longrightarrow>
             obj_get (options pr'') k = obj_get (options pr) k))"
proof (intro conjI impI)
  assume "updatePaymentRequest tr st pr tot currencyCode cartTotalItems = Inr pr'"
  then obtain t where pr': "pr' = paymentRequest_update pr
      [(''total'', t), (''currency'', currencyCode),
       (''displayItems'', JArray (normalizeLineItems cartTotalItems))]"
    by (auto simp: updatePaymentRequest_def split: sum.splits)
  show "\<exists>arg. updates pr' = updates pr @ [arg] \<and>
      map fst arg = [''total'', ''currency'', ''displayItems'']"
    by (simp add: pr' paymentRequest_update_def)
  show "\<forall>k. k \<notin> set [''total'', ''currency'', ''displayItems''] \<longrightarrow>
      obj_get (options pr') k = obj_get (options pr) k"
    by (simp add: pr' paymentRequest_update_frame)
next
  assume "updatePaymentRequestWithCart pr cart = Inr pr''"
  then obtain t c d where pr'': "pr'' = paymentRequest_update pr
      [(''total'', t), (''currency'', c), (''displayItems'', d)]"
    by (auto simp: updatePaymentRequestWithCart_def split: sum.splits)
  show "\<exists>arg. updates pr'' = updates pr @ [arg] \<and>
      map fst arg = [''total'', ''currency'', ''displayItems'']"
    by (simp add: pr'' paymentRequest_update_def)
  show "\<forall>k. k \<notin> set [''total'', ''currency'', ''displayItems''] \<longrightarrow>
      obj_get (options pr'') k = obj_get (options pr) k"
    by (simp add: pr'' paymentRequest_update_frame)
qed

theorem update_passes_three_fields_only_witness:
  "(\<exists>pr'. updatePaymentRequest untranslated example_settings example_handle
            (JObject [(''value'', JNum 1500)]) (JStr ''eur'') [] = Inr pr' \<and>
          map (map fst) (updates pr') = [[''total'', ''currency'', ''displayItems'']] \<and>
          obj_get (options pr') ''country'' = JStr ''PR'' \<and>
          obj_get (options pr') ''requestPayerName'' = JBool True \<and>
          obj_get (options pr') ''requestPayerEmail'' = JBool True \<and>
          obj_get (options pr') ''requestPayerPhone'' = JBool True \<and>
          obj_get (options pr') ''requestShipping'' = JBool True \<and>
          obj_get (options pr') ''currency'' = JStr ''eur'') \<and>
   (\<exists>pr''. updatePaymentRequestWithCart example_handle example_cart = Inr pr'' \<and>
          map (map fst) (updates pr'') = [[''total'', ''currency'', ''displayItems'']] \<and>
          obj_get (options pr'') ''country'' = JStr ''PR'' \<and>
          obj_get (options pr'') ''requestShipping'' = JBool True)"
proof -
  let ?a = "paymentRequest_update example_handle
     [(''total'', JObject [(''label'', JStr ''Total''), (''amount'', JNum 1500)]),
      (''currency'', JStr ''eur''),
      (''displayItems'', JArray [])]"
  let ?b = "paymentRequest_update example_handle
     [(''total'', JObject [(''label'', JStr ''Total''), (''amount'', JNum 1000)]),
      (''currency'', JStr ''usd''),
      (''displayItems'', JArray [JObject [(''label'', JStr ''Shipping''), (''amount'', JNum 500)]])]"
  note inst = update_passes_three_fields_only
    [of untranslated example_settings example_handle "JObject [(''value'', JNum 1500)]"
        "JStr ''eur''" "[]" ?a example_cart ?b]
  have before: "obj_get (options example_handle) ''country'' = JStr ''PR''"
    "obj_get (options example_handle) ''requestPayerName'' = JBool True"
    "obj_get (options example_handle) ''requestPayerEmail'' = JBool True"
    "obj_get (options example_handle) ''requestPayerPhone'' = JBool True"
    "obj_get (options example_handle) ''requestShipping'' = JBool True"
    by (simp_all add: example_handle_def example_options_def obj_get_def own_prop_def)
  have ups: "updates example_handle = []"
    by (simp add: example_handle_def)
  have cur: "obj_get (options ?a) ''currency'' = JStr ''eur''"
    by (simp add: paymentRequest_update_def obj_get_def own_prop_def)
  from inst example_update example_update_with_cart
  have a: "(\<exists>arg. updates ?a = updates example_handle @ [arg] \<and>
             map fst arg = [''total'', ''currency'', ''displayItems''])"
    and fa: "\<forall>k. k \<notin> set [''total'', ''currency'', ''displayItems''] \<longrightarrow>
             obj_get (options ?a) k = obj_get (options example_handle) k"
    and b: "(\<exists>arg. updates ?b = updates example_handle @ [arg] \<and>
             map fst arg = [''total'', ''currency'', ''displayItems''])"
    and fb: "\<forall>k. k \<notin> set [''total'', ''currency'', ''displayItems''] \<longrightarrow>
             obj_get (options ?b) k = obj_get (options example_handle) k"
    by blast+
  from a ups have a': "map (map fst) (updates ?a) = [[''total'', ''currency'', ''displayItems'']]"
    by auto
  from b ups have b': "map (map fst) (updates ?b) = [[''total'', ''currency'', ''displayItems'']]"
    by auto
  from fa before have ka: "obj_get (options ?a) ''country'' = JStr ''PR''"
    "obj_get (options ?a) ''requestPayerName'' = JBool True"
    "obj_get (options ?a) ''requestPayerEmail'' = JBool True"
    "obj_get (options ?a) ''requestPayerPhone'' = JBool True"
    "obj_get (options ?a) ''requestShipping'' = JBool True"
    by simp_all
  from fb before have kb: "obj_get (options ?b) ''country'' = JStr ''PR''"
    "obj_get (options ?b) ''requestShipping'' = JBool True"
    by simp_all
  from example_update a' ka cur example_update_with_cart b' kb show ?thesis
    by simp
qed


section \<open>Capability Prober: properties\<close>

text \<open>The callback reads a property of a truthy value only, so it never throws.\<close>

lemma canMakePayment_then_no_error: "\<exists>v. canMakePayment_then result = Inr v"
proof (cases "truthy result")
  case True
  then obtain a where "js_get result ''applePay'' = Inr a"
    using js_get_truthy by blast
  then show ?thesis by (simp add: canMakePayment_then_def True Let_def)
next
  case False
  then show ?thesis by (simp add: canMakePayment_then_def)
qed

text \<open>
  C5. When the probe resolves, the prober resolves with the classification of the
  result: \<open>{ canPay: false }\<close> for a falsy result; \<open>canPay: true\<close> with the request
  type \<open>apple_pay\<close> for a truthy result whose \<open>applePay\<close> property is truthy; and
  \<open>canPay: true\<close> with the request type \<open>payment_request_api\<close> for every other
  truthy result, the empty object among them. Reading \<open>applePay\<close> from a truthy
  result always gives a value.
\<close>

theorem probe_result_classification:
  "(\<not> truthy result \<longrightarrow>
      canDoPaymentRequest (Resolved result) = Resolved (JObject [(''canPay'', JBool False)])) \<and>
   (truthy result \<and> js_get result ''applePay'' = Inr applePay \<and> truthy applePay \<longrightarrow>
      canDoPaymentRequest (Resolved result) =
        Resolved (JObject [(''canPay'', JBool True), (''requestType'', JStr ''apple_pay'')])) \<and>
   (truthy result \<and> js_get result ''applePay'' = Inr applePay \<and> \<not> truthy applePay \<longrightarrow>
      canDoPaymentRequest (Resolved result) =
        Resolved (JObject [(''canPay'', JBool True), (''requestType'', JStr ''payment_request_api'')])) \<and>
   (truthy result \<longrightarrow> (\<exists>a. js_get result ''applePay'' = Inr a)) \<and>
   canDoPaymentRequest (Resolved (JObject [])) =
     Resolved (JObject [(''canPay'', JBool True), (''requestType'', JStr ''payment_request_api'')])"
  by (auto simp: canDoPaymentRequest_def canMakePayment_then_def Let_def obj_get_def own_prop_def
      Object_prototype_keys_def js_get_truthy)

theorem probe_result_classification_witness:
  "canDoPaymentRequest (Resolved (JObject [(''applePay'', JBool True)])) =
     Resolved (JObject [(''canPay'', JBool True), (''requestType'', JStr ''apple_pay'')]) \<and>
   canDoPaymentRequest (Resolved (JObject [(''googlePay'', JBool True)])) =
     Resolved (JObject [(''canPay'', JBool True), (''requestType'', JStr ''payment_request_api'')]) \<and>
   canDoPaymentRequest (Resolved JNull) = Resolved (JObject [(''canPay'', JBool False)]) \<and>
   canDoPaymentRequest (Resolved (JBool False)) = Resolved (JObject [(''canPay'', JBool False)])"
proof -
  have a: "js_get (JObject [(''applePay'', JBool True)]) ''applePay'' = Inr (JBool True)"
    by (simp add: obj_get_def own_prop_def)
  have g: "js_get (JObject [(''googlePay'', JBool True)]) ''applePay'' = Inr JUndefined"
    by (simp add: obj_get_def own_prop_def Object_prototype_keys_def)
  from probe_result_classification [of "JObject [(''applePay'', JBool True)]" "JBool True"]
       probe_result_classification [of "JObject [(''googlePay'', JBool True)]" JUndefined]
       probe_result_classification [of JNull JUndefined]
       probe_result_classification [of "JBool False" JUndefined]
       a g
  show ?thesis by simp
qed

section \<open>Request Builder: the country\<close>

text \<open>
  The builder replaces a falsy country code by US and passes every other code on,
  PR among them. The sibling \<open>createPaymentRequestUsingCart\<close> maps PR to US, as
  its comment says the vendor needs.
\<close>

lemma getPaymentRequest_country:
  "getPaymentRequest tr st tot currencyCode countryCode shippingRequired cartTotalItems = Inr pr \<Longrightarrow>
     obj_get (options pr) ''country'' = (if truthy countryCode then countryCode else JStr ''US'')"
  by (auto dest!: getPaymentRequest_options simp: obj_get_def own_prop_def js_or_def)

lemma createPaymentRequestUsingCart_maps_PR:
  "\<exists>pr. createPaymentRequestUsingCart (JBool False) example_cart = Inr pr \<and>
        obj_get (options pr) ''country'' = JStr ''US''"
  by (simp add: createPaymentRequestUsingCart_def example_cart_def obj_get_def own_prop_def
      strict_eq_def stripe_paymentRequest_def Let_def)

text \<open>
  C1. The specification asks that the builder's request has the country US for the
  country code PR. On the spec's end-to-end example, with the country code PR, the
  builder returns a handle whose country is PR: the code of Puerto Rico is passed to
  the vendor as it is.
\<close>

theorem getPaymentRequest_keeps_PR:
  "getPaymentRequest untranslated example_settings example_total (JStr ''usd'') (JStr ''PR'')
     (JBool True) example_items = Inr example_handle \<and>
   obj_get (options example_handle) ''country'' = JStr ''PR''"
  by (simp add: example_request) (simp add: example_handle_def example_options_def obj_get_def own_prop_def)

section \<open>Error Classifier: properties\<close>

text \<open>
  The second case expression of the \<^verbatim>\<open>switch\<close> is a boolean, so the case is
  taken exactly for the type \<open>false\<close>, and never for a string.
\<close>

lemma nonfriendly_case_only_false:
  "strict_eq type (JBool (isNonFriendlyError et type)) = (type = JBool False)"
  by (cases type) (auto simp: strict_eq_def isNonFriendlyError_def Array_includes_def)

lemma classifier_on_strings:
  "getErrorMessageForTypeAndCode tr et ec (JStr s) code =
     (if s = INVALID_EMAIL et then email_message tr
      else if s = CARD_ERROR et
        then getErrorMessageForCode tr ec (case code of None \<Rightarrow> [] | Some c \<Rightarrow> c)
      else if s = VALIDATION_ERROR et then JStr []
      else JNull)"
  by (simp add: getErrorMessageForTypeAndCode_def nonfriendly_case_only_false strict_eq_def)

text \<open>
  C2. The specification asks for the generic fallback message on every type of the
  closed set invalid_request, api_connection, api_error, authentication_error,
  rate_limit_error. Each of the five is a non-friendly type for
  \<open>isNonFriendlyError\<close>, and on each the classifier returns \<open>null\<close>, for every
  code and every translation; the generic message is not \<open>null\<close>.
\<close>

theorem nonfriendly_types_get_no_message:
  "isNonFriendlyError spec_errorTypes (JStr ''invalid_request'') \<and>
   getErrorMessageForTypeAndCode tr spec_errorTypes ec (JStr ''invalid_request'') code = JNull \<and>
   getErrorMessageForTypeAndCode tr spec_errorTypes ec (JStr ''api_connection'') code = JNull \<and>
   getErrorMessageForTypeAndCode tr spec_errorTypes ec (JStr ''api_error'') code = JNull \<and>
   getErrorMessageForTypeAndCode tr spec_errorTypes ec (JStr ''authentication_error'') code = JNull \<and>
   getErrorMessageForTypeAndCode tr spec_errorTypes ec (JStr ''rate_limit_error'') code = JNull \<and>
   generic_message untranslated \<noteq> JNull"
  by (simp add: classifier_on_strings spec_errorTypes_def isNonFriendlyError_def Array_includes_def
      generic_message_def)

text \<open>
  What the classifier can return: one of the two fixed messages, a message of the
  code table, the empty string, \<open>null\<close>, or, for a code that is the name of a
  property inherited from \<^verbatim>\<open>Object.prototype\<close>, that builtin.
\<close>

lemma getErrorMessageForCode_range:
  "getErrorMessageForCode tr ec code = r \<Longrightarrow>
     r \<in> snd ` set (messages tr ec) \<or> r = JNull \<or>
     (code \<in> set Object_prototype_keys \<and> r = JBuiltin (''Object.prototype.'' @ code))"
  by (auto simp: getErrorMessageForCode_def js_or_def obj_get_def own_prop_def
      split: option.splits if_splits dest!: map_of_SomeD intro: rev_image_eqI)

lemma classifier_range:
  "getErrorMessageForTypeAndCode tr et ec type code = r \<Longrightarrow>
     r = email_message tr \<or> r = generic_message tr \<or> r \<in> snd ` set (messages tr ec) \<or>
     r = JStr [] \<or> r = JNull \<or>
     (\<exists>k. code = Some k \<and> k \<in> set Object_prototype_keys \<and> r = JBuiltin (''Object.prototype.'' @ k))"
  using getErrorMessageForCode_range [of tr ec "case code of None \<Rightarrow> [] | Some c \<Rightarrow> c" r]
  by (auto simp: getErrorMessageForTypeAndCode_def Let_def Object_prototype_keys_def
      split: if_splits option.splits)

text \<open>
  C6. The specification asks that every pair of a type and a code is classified as
  one of the fixed email message, the generic fallback, a message of the code table,
  the empty string, or \<open>null\<close>. For the type card_error and the code toString
  the classifier returns the builtin function \<^verbatim>\<open>Object.prototype.toString\<close>,
  which the lookup in the object literal \<open>messages\<close> inherits.
\<close>

theorem inherited_name_is_not_classified:
  "getErrorMessageForTypeAndCode tr spec_errorTypes spec_errorCodes (JStr ''card_error'')
     (Some ''toString'') = JBuiltin ''Object.prototype.toString''"
  by (simp add: classifier_on_strings spec_errorTypes_def getErrorMessageForCode_def js_or_def
      obj_get_def own_prop_def messages_def spec_errorCodes_def Object_prototype_keys_def)

section \<open>Address Normalizer: properties\<close>

text \<open>
  \<^verbatim>\<open>replace(' ', '')\<close> removes the first space and no other; the capital
  letters are a fixed point of \<open>toUpperCase\<close>.
\<close>

lemma String_replace_space:
  "String_replace '' '' [] s = takeWhile (\<lambda>c. c \<noteq> CHR '' '') s @ tl (dropWhile (\<lambda>c. c \<noteq> CHR '' '') s)"
  by (induction s) auto

lemma String_replace_removes_one_space:
  "length (filter (\<lambda>c. c = CHR '' '') (String_replace '' '' [] s)) =
     length (filter (\<lambda>c. c = CHR '' '') s) - 1"
  by (induction s) auto

lemma String_replace_no_space:
  "CHR '' '' \<notin> set s \<Longrightarrow> String_replace '' '' [] s = s"
  by (induction s) auto

lemma toUpperCase_char_idem: "toUpperCase_char (toUpperCase_char c) = toUpperCase_char c"
  by (cases c) (auto simp: toUpperCase_char_def Let_def)

lemma toUpperCase_idem: "toUpperCase (toUpperCase s) = toUpperCase s"
  by (simp add: toUpperCase_def toUpperCase_char_idem)

lemma toUpperCase_space: "(toUpperCase_char c = CHR '' '') = (c = CHR '' '')"
  by (cases c) (auto simp: toUpperCase_char_def Let_def)

text \<open>
  C3. The specification asks for the postcode with all spaces removed and
  upper-cased, SW1A1AA for the postcode of the example address, which is sw1a 1aa
  with a space before and a space after. \<open>pluckAddress\<close> returns the four fields
  with the postcode upper-cased and only its first space removed: the space inside
  and the space at the end stay.
\<close>

theorem pluckAddress_removes_first_space_only:
  "pluckAddress example_address =
     Inr (JObject
       [(''country'', JStr ''GB''),
        (''state'', JStr []),
        (''city'', JStr ''London''),
        (''postcode'', JStr ''SW1A 1AA '')])"
  by (simp add: pluckAddress_def example_address_def obj_get_def own_prop_def
      toUpperCase_def toUpperCase_char_def)

text \<open>
  C4. The specification asks that \<open>pluckAddress\<close> is idempotent. Applied to its own
  result for the example address, it removes one more space and returns another
  address.
\<close>

theorem pluckAddress_not_idempotent:
  "pluckAddress
     (JObject
       [(''country'', JStr ''GB''),
        (''state'', JStr []),
        (''city'', JStr ''London''),
        (''postcode'', JStr ''SW1A 1AA '')]) =
   Inr (JObject
       [(''country'', JStr ''GB''),
        (''state'', JStr []),
        (''city'', JStr ''London''),
        (''postcode'', JStr ''SW1A1AA '')]) \<and>
   ''SW1A1AA '' \<noteq> ''SW1A 1AA ''"
  by (simp add: pluckAddress_def obj_get_def own_prop_def toUpperCase_def toUpperCase_char_def)

text \<open>
  On a postcode with at most one space the result is a fixed point of
  \<open>pluckAddress\<close>.
\<close>

lemma pluckAddress_Inr:
  "pluckAddress a = Inr b \<Longrightarrow>
     \<exists>country state city s.
        js_get a ''postcode'' = Inr (JStr s) \<and>
        b = JObject
              [(''country'', country),
               (''state'', state),
               (''city'', city),
               (''postcode'', JStr (toUpperCase (String_replace '' '' [] s)))]"
  by (auto simp: pluckAddress_def split: sum.splits jsval.splits)

lemma no_space_after_replace:
  assumes "length (filter (\<lambda>c. c = CHR '' '') s) \<le> 1"
  shows "CHR '' '' \<notin> set (toUpperCase (String_replace '' '' [] s))"
proof -
  from assms have "length (filter (\<lambda>c. c = CHR '' '') (String_replace '' '' [] s)) = 0"
    by (simp add: String_replace_removes_one_space)
  then have "CHR '' '' \<notin> set (String_replace '' '' [] s)"
    by (auto simp: filter_empty_conv)
  then have "toUpperCase_char c \<noteq> CHR '' ''" if "c \<in> set (String_replace '' '' [] s)" for c
    using that by (metis toUpperCase_space)
  then show ?thesis
    unfolding toUpperCase_def by (metis imageE list.set_map)
qed

lemma pluckAddress_idempotent_one_space:
  assumes a: "pluckAddress a = Inr b"
    and p: "js_get a ''postcode'' = Inr (JStr s)"
    and one: "length (filter (\<lambda>c. c = CHR '' '') s) \<le> 1"
  shows "pluckAddress b = Inr b"
proof -
  from pluckAddress_Inr [OF a] p obtain country state city where
    b: "b = JObject
              [(''country'', country),
               (''state'', state),
               (''city'', city),
               (''postcode'', JStr (toUpperCase (String_replace '' '' [] s)))]"
    by auto
  have "String_replace '' '' [] (toUpperCase (String_replace '' '' [] s)) =
      toUpperCase (String_replace '' '' [] s)"
    using no_space_after_replace [OF one] by (rule String_replace_no_space)
  then show ?thesis
    by (simp add: b pluckAddress_def obj_get_def own_prop_def toUpperCase_idem)
qed


end
